theory Spec2Isabelle
  imports Main
begin

section \<open>Run-time values\<close>

text \<open>
  The validator of \<^verbatim>\<open>schema.ts\<close> walks JSON-like documents. A value is one of
  the run-time kinds the source distinguishes (\<^verbatim>\<open>typeof\<close>, \<^verbatim>\<open>Array.isArray\<close>,
  \<^verbatim>\<open>instanceof Date\<close>, \<^verbatim>\<open>instanceof RegExp\<close>). An object is the list of its own
  enumerable properties in enumeration order (the order of \<^verbatim>\<open>for ... in\<close> and
  \<^verbatim>\<open>Object.entries\<close>), each key once; a new property is appended at the end.
  Numbers are integers, strings are lists of code units. Documents are trees (no
  object is reachable along two paths), so that the in-place updates of the source are
  the values returned here. The members that every plain object inherits from
  \<^verbatim>\<open>Object.prototype\<close> are described where \<^verbatim>\<open>nestData\<close> walks the segments
  of a key; the reads of \<^verbatim>\<open>schema[key]\<close> and \<^verbatim>\<open>dataToCheck[key]\<close> are
  modelled on own properties.
\<close>

datatype jsval =
    VUndefined
  | VNull
  | VBool bool
  | VNum int
  | VStr string
  | VArr "jsval list"
  | VObj "(string \<times> jsval) list"
  | VDate int
  | VRegExp string
  | VFun nat

type_synonym jsobj = "(string \<times> jsval) list"

fun typeof :: "jsval \<Rightarrow> string" where
  "typeof VUndefined = ''undefined''"
| "typeof VNull = ''object''"
| "typeof (VBool _) = ''boolean''"
| "typeof (VNum _) = ''number''"
| "typeof (VStr _) = ''string''"
| "typeof (VArr _) = ''object''"
| "typeof (VObj _) = ''object''"
| "typeof (VDate _) = ''object''"
| "typeof (VRegExp _) = ''object''"
| "typeof (VFun _) = ''function''"

fun isArray :: "jsval \<Rightarrow> bool" where
  "isArray (VArr _) = True"
| "isArray _ = False"

text \<open>Truthiness, as used by \<^verbatim>\<open>if (customValidate(value))\<close>.\<close>

fun truthy :: "jsval \<Rightarrow> bool" where
  "truthy VUndefined = False"
| "truthy VNull = False"
| "truthy (VBool b) = b"
| "truthy (VNum n) = (n \<noteq> 0)"
| "truthy (VStr s) = (s \<noteq> [])"
| "truthy _ = True"

text \<open>Decimal rendering of a number inside a template string.\<close>

definition digit_char :: "nat \<Rightarrow> char" where
  "digit_char d = char_of (48 + d)"

fun string_of_nat :: "nat \<Rightarrow> string" where
  "string_of_nat n =
     (if n < 10 then [digit_char n]
      else string_of_nat (n div 10) @ [digit_char (n mod 10)])"

definition string_of_int :: "int \<Rightarrow> string" where
  "string_of_int i = (if i < 0 then CHR ''-'' # string_of_nat (nat (- i)) else string_of_nat (nat i))"

section \<open>Errors and effects\<close>

text \<open>
  \<open>Error m\<close> is \<^verbatim>\<open>throw new Error(m)\<close>. \<open>TypeError f\<close> is a fault raised by the
  language itself. \<open>OutsideModel\<close> marks a step that this development does not
  describe: a property access on a value that is neither a plain object nor
  \<^verbatim>\<open>undefined\<close>/\<^verbatim>\<open>null\<close> (an array, a date or a primitive used as a record),
  and a walk of \<^verbatim>\<open>nestData\<close> that continues on an object of the runtime beyond the
  case described with \<open>walk_inherited\<close>.
\<close>

datatype fault = ReadOfNullish | WriteToNullish | KeysOfNullish

datatype error = Error string | TypeError fault | OutsideModel

text \<open>
  The schema's callbacks are user functions, taken to be total and to have no effect
  of their own; each invocation is recorded, so that whether and how often one is
  called is observable. A computation yields the calls it made and an error or a
  result; the rejection of the promise that \<^verbatim>\<open>validate\<close> returns is the error.
\<close>

datatype call = CallDefault string | CallValidate string jsval | CallTransform string jsval

type_synonym 'a eff = "call list \<times> (error + 'a)"

definition ret :: "'a \<Rightarrow> 'a eff" where
  "ret x = ([], Inr x)"

definition throw :: "error \<Rightarrow> 'a eff" where
  "throw e = ([], Inl e)"

definition bind :: "'a eff \<Rightarrow> ('a \<Rightarrow> 'b eff) \<Rightarrow> 'b eff" where
  "bind m f =
     (case m of
        (l, Inl e) \<Rightarrow> (l, Inl e)
      | (l, Inr x) \<Rightarrow> (case f x of (l', r) \<Rightarrow> (l @ l', r)))"

section \<open>Property access\<close>

fun get_prop :: "jsval \<Rightarrow> string \<Rightarrow> jsval eff" where
  "get_prop (VObj ps) k = ret (case map_of ps k of Some v \<Rightarrow> v | None \<Rightarrow> VUndefined)"
| "get_prop VUndefined k = throw (TypeError ReadOfNullish)"
| "get_prop VNull k = throw (TypeError ReadOfNullish)"
| "get_prop _ k = throw OutsideModel"

text \<open>Assignment keeps the position of an existing property and appends a new one.\<close>

fun upd :: "jsobj \<Rightarrow> string \<Rightarrow> jsval \<Rightarrow> jsobj" where
  "upd [] k v = [(k, v)]"
| "upd ((k', v') # ps) k v = (if k' = k then (k, v) # ps else (k', v') # upd ps k v)"

fun set_prop :: "jsval \<Rightarrow> string \<Rightarrow> jsval \<Rightarrow> jsval eff" where
  "set_prop (VObj ps) k v = ret (VObj (upd ps k v))"
| "set_prop VUndefined k v = throw (TypeError WriteToNullish)"
| "set_prop VNull k v = throw (TypeError WriteToNullish)"
| "set_prop _ k v = throw OutsideModel"

section \<open>Schema definitions\<close>

text \<open>
  A rule attribute is a scalar or a two-element array of a scalar and a message. A
  callback attribute holds a function or some other defined value. An attribute that
  is \<^verbatim>\<open>undefined\<close> is \<open>None\<close>. A schema lists its fields in enumeration order,
  each key once.
\<close>

datatype 'a attr = Plain 'a | WithMsg 'a string

datatype 'f callable = Fn 'f | NotFn

fun attr_first :: "'a attr \<Rightarrow> 'a" where
  "attr_first (Plain x) = x"
| "attr_first (WithMsg x m) = x"

fun attr_error :: "'a attr \<Rightarrow> string" where
  "attr_error (Plain x) = ''''"
| "attr_error (WithMsg x m) = m"

datatype fielddef = FieldDef
  (ftype: "string option")
  (required: "jsval attr option")
  (maxLength: "jsval attr option")
  (minLength: "jsval attr option")
  (validateFn: "(jsval \<Rightarrow> jsval) callable attr option")
  (transformFn: "(jsval \<Rightarrow> jsval) callable option")
  (defaultFn: "(unit \<Rightarrow> jsval) callable option")
  (arrayOf: "string option")
  (nestedSchema: "(string \<times> fielddef) list option")

type_synonym schemadef = "(string \<times> fielddef) list"

record options =
  skipStrip :: bool
  skipRequired :: bool
  skipDefault :: bool
  allowDotNotation :: bool

text \<open>
  Modelled from the spec: the module \<^verbatim>\<open>schema-types\<close> that \<^verbatim>\<open>schema.ts\<close> imports
  is not among the sources; its values are the supported type enum
  \<open>{string, number, boolean, object, array}\<close>.
\<close>

definition SchemaTypes :: "string list" where
  "SchemaTypes = [''string'', ''number'', ''boolean'', ''object'', ''array'']"

section \<open>Stripper and path codec\<close>

text \<open>
  \<^verbatim>\<open>stripData\<close>: \<^verbatim>\<open>for (const key in data) if (schema[key] !== undefined) delete data[key]\<close>.
\<close>

fun stripData :: "jsval \<Rightarrow> schemadef \<Rightarrow> jsval eff" where
  "stripData (VObj ps) schema = ret (VObj (filter (\<lambda>(k, v). map_of schema k = None) ps))"
| "stripData VUndefined schema = ret VUndefined"
| "stripData VNull schema = ret VNull"
| "stripData _ schema = throw OutsideModel"

text \<open>\<^verbatim>\<open>key.split(".")\<close>\<close>

fun split_dot :: "string \<Rightarrow> string list" where
  "split_dot [] = [[]]"
| "split_dot (c # cs) =
     (if c = CHR ''.'' then [] # split_dot cs
      else (case split_dot cs of s # ss \<Rightarrow> (c # s) # ss | [] \<Rightarrow> [[c]]))"

text \<open>
  The objects that \<^verbatim>\<open>nestData\<close> walks are plain objects: those it creates by
  \<^verbatim>\<open>{}\<close>, and plain objects that are values of the data. A read \<^verbatim>\<open>objRef[k]\<close>
  that finds no own property \<open>k\<close> is therefore resolved through
  \<^verbatim>\<open>Object.prototype\<close>. These are the names of its members; \<^verbatim>\<open>__proto__\<close> is
  an accessor, the others are functions.
\<close>

definition object_prototype_names :: "string list" where
  "object_prototype_names =
     [''constructor'', ''__defineGetter__'', ''__defineSetter__'', ''hasOwnProperty'',
      ''__lookupGetter__'', ''__lookupSetter__'', ''isPrototypeOf'', ''propertyIsEnumerable'',
      ''toString'', ''valueOf'', ''__proto__'', ''toLocaleString'']"

definition inherits :: "jsval \<Rightarrow> string \<Rightarrow> bool" where
  "inherits objRef k =
     (case objRef of
        VObj ps \<Rightarrow> map_of ps k = None \<and> k \<in> set object_prototype_names
      | _ \<Rightarrow> False)"

text \<open>
  When a segment before the last is inherited, \<^verbatim>\<open>objRef[keys[i]] === undefined\<close> is
  false and \<^verbatim>\<open>objRef\<close> becomes the inherited member, an object of the runtime: the
  rest of the walk writes to that object and the nested record is left as it is. The
  case described here is that of a function member followed by one last segment that
  the function does not have itself: the assignment adds a property to the function
  (as \<^verbatim>\<open>Object.x = 1\<close> does for the key \<^verbatim>\<open>"constructor.x"\<close>) and succeeds. The
  names listed are those of properties that functions own or inherit and of the methods
  of \<^verbatim>\<open>Object\<close> that \<^verbatim>\<open>schema.ts\<close> calls; with one of them, with a longer rest,
  or through \<^verbatim>\<open>__proto__\<close> (where the walk continues on \<^verbatim>\<open>Object.prototype\<close>
  itself) the outcome depends on the state of the runtime's objects and is
  \<open>OutsideModel\<close>.
\<close>

definition function_names :: "string list" where
  "function_names =
     object_prototype_names
     @ [''length'', ''name'', ''prototype'', ''arguments'', ''caller'', ''apply'', ''bind'',
        ''call'', ''assign'', ''entries'', ''keys'', ''values'']"

fun walk_inherited :: "string \<Rightarrow> string list \<Rightarrow> unit eff" where
  "walk_inherited k [s] =
     (if k = ''__proto__'' \<or> s \<in> set function_names then throw OutsideModel else ret ())"
| "walk_inherited k ks = throw OutsideModel"

text \<open>
  The final assignment \<^verbatim>\<open>objRef[keys[keys.length - 1]] = data[key]\<close>. Assigning to
  an inherited function member creates an own property. Assigning to the inherited
  accessor \<^verbatim>\<open>__proto__\<close> creates none: a value that is neither an object nor
  \<^verbatim>\<open>null\<close> is ignored, any other replaces the prototype of \<^verbatim>\<open>objRef\<close>, which is
  \<open>OutsideModel\<close>.
\<close>

definition assign_last :: "jsval \<Rightarrow> string \<Rightarrow> jsval \<Rightarrow> jsval eff" where
  "assign_last objRef k v =
     (if k = ''__proto__'' \<and> inherits objRef k then
        (if typeof v \<in> {''object'', ''function''} then throw OutsideModel else ret objRef)
      else set_prop objRef k v)"

text \<open>
  The inner loop of \<^verbatim>\<open>nestData\<close> and the final assignment, for one key: walk the
  segments from \<open>objRef\<close>, creating an empty object where a segment is undefined.
  The source mutates the object it has descended into; here the updated child is
  written back into its parent.
\<close>

fun nest_path :: "jsval \<Rightarrow> string list \<Rightarrow> jsval \<Rightarrow> jsval eff" where
  "nest_path objRef [] v = assign_last objRef ''undefined'' v"
| "nest_path objRef [k] v = assign_last objRef k v"
| "nest_path objRef (k # ks) v =
     (if inherits objRef k then bind (walk_inherited k ks) (\<lambda>_. ret objRef)
      else
        bind (get_prop objRef k) (\<lambda>c.
        bind (if c = VUndefined then set_prop objRef k (VObj []) else ret objRef) (\<lambda>objRef1.
        bind (nest_path (if c = VUndefined then VObj [] else c) ks v) (\<lambda>c'.
        set_prop objRef1 k c'))))"

fun nest_entries :: "jsobj \<Rightarrow> jsval \<Rightarrow> jsval eff" where
  "nest_entries [] nestedObj = ret nestedObj"
| "nest_entries ((key, v) # ps) nestedObj =
     bind (nest_path nestedObj (split_dot key) v) (nest_entries ps)"

fun nestData :: "jsval \<Rightarrow> jsval eff" where
  "nestData (VObj ps) = nest_entries ps (VObj [])"
| "nestData VUndefined = ret (VObj [])"
| "nestData VNull = ret (VObj [])"
| "nestData _ = throw OutsideModel"

text \<open>
  \<^verbatim>\<open>flattenData\<close>: a value is descended into when it is an object that is not
  null, a date, an array or a regular expression.
\<close>

fun isPlain :: "jsval \<Rightarrow> bool" where
  "isPlain (VObj _) = True"
| "isPlain _ = False"

fun assign :: "jsobj \<Rightarrow> jsobj \<Rightarrow> jsobj" where
  "assign result [] = result"
| "assign result ((k, v) # ps) = assign (upd result k v) ps"

fun flatten_entries :: "jsobj \<Rightarrow> string \<Rightarrow> jsobj \<Rightarrow> jsobj" where
  "flatten_entries [] prefix result = result"
| "flatten_entries ((key, VObj ps) # rest) prefix result =
     flatten_entries rest prefix
       (assign result (flatten_entries ps (prefix @ key @ ''.'') []))"
| "flatten_entries ((key, v) # rest) prefix result =
     flatten_entries rest prefix (upd result (prefix @ key) v)"

fun flattenData :: "jsval \<Rightarrow> string \<Rightarrow> jsval eff" where
  "flattenData (VObj ps) prefix = ret (VObj (flatten_entries ps prefix []))"
| "flattenData VUndefined prefix = throw (TypeError KeysOfNullish)"
| "flattenData VNull prefix = throw (TypeError KeysOfNullish)"
| "flattenData _ prefix = throw OutsideModel"

section \<open>Field rule evaluators\<close>

text \<open>\<^verbatim>\<open>error || `...`\<close>: the supplied message unless it is empty.\<close>

definition or_else :: "string \<Rightarrow> string \<Rightarrow> string" where
  "or_else error dflt = (if error \<noteq> [] then error else dflt)"

definition validateType :: "jsval \<Rightarrow> string option \<Rightarrow> string \<Rightarrow> unit eff" where
  "validateType value type key =
     (if \<not> (case type of Some t \<Rightarrow> t \<in> set SchemaTypes | None \<Rightarrow> False)
      then throw (Error (''Invalid type for '' @ key))
      else case type of
        None \<Rightarrow> throw (Error (''A type for '' @ key @ '' must be specified''))
      | Some t \<Rightarrow>
          if value \<noteq> VUndefined \<and> value \<noteq> VNull then
            (if t = ''array'' then
               (if \<not> isArray value
                then throw (Error (key @ '' must be of type '' @ t @ '', but got '' @ typeof value))
                else ret ())
             else if typeof value \<noteq> t
               then throw (Error (key @ '' must be of type '' @ t @ '', but got '' @ typeof value))
               else ret ())
          else ret ())"

definition validateRequired :: "jsval \<Rightarrow> jsval attr option \<Rightarrow> string \<Rightarrow> unit eff" where
  \<open>validateRequired value required' key =
     (case required' of
        None \<Rightarrow> ret ()
      | Some r \<Rightarrow>
          (let isRequired = attr_first r; error = attr_error r in
           if typeof isRequired \<noteq> ''boolean''
           then throw (Error (''"required" property for '' @ key @
                  '' must be a boolean, or an array containing a boolean as its first element''))
           else if \<not> truthy isRequired \<or> (value \<noteq> VUndefined \<and> value \<noteq> VNull) then ret ()
           else throw (Error (or_else error (key @ '' is required'')))))\<close>

text \<open>\<^verbatim>\<open>Object.keys(value).length\<close>, which throws on \<^verbatim>\<open>null\<close> and \<^verbatim>\<open>undefined\<close>.\<close>

fun keys_length :: "jsval \<Rightarrow> int eff" where
  "keys_length (VObj ps) = ret (int (length ps))"
| "keys_length (VArr xs) = ret (int (length xs))"
| "keys_length (VStr s) = ret (int (length s))"
| "keys_length VUndefined = throw (TypeError KeysOfNullish)"
| "keys_length VNull = throw (TypeError KeysOfNullish)"
| "keys_length _ = ret 0"

text \<open>\<^verbatim>\<open>value.length\<close> of a string or an array.\<close>

fun length_of :: "jsval \<Rightarrow> int" where
  "length_of (VStr s) = int (length s)"
| "length_of (VArr xs) = int (length xs)"
| "length_of _ = 0"

definition validateMinLength :: "jsval \<Rightarrow> jsval attr option \<Rightarrow> string \<Rightarrow> unit eff" where
  \<open>validateMinLength value minLength' key =
     (case minLength' of
        None \<Rightarrow> ret ()
      | Some a \<Rightarrow>
          (let error = attr_error a in
           case attr_first a of
             VNum len \<Rightarrow>
               if typeof value = ''string'' \<and> length_of value < len
               then throw (Error (or_else error
                      (key @ '' must be at least '' @ string_of_int len @ '' characters long'')))
               else if isArray value \<and> length_of value < len
               then throw (Error (or_else error
                      (key @ '' must contain at least '' @ string_of_int len @ '' elements'')))
               else if typeof value = ''object''
               then bind (keys_length value) (\<lambda>n.
                      if n < len
                      then throw (Error (or_else error
                             (key @ '' must contain at least '' @ string_of_int len @ '' properties'')))
                      else ret ())
               else ret ()
           | _ \<Rightarrow> throw (Error (''"minlength" property for '' @ key @
                   '' must be a number, or an array containing a number as its first element''))))\<close>

definition validateMaxLength :: "jsval \<Rightarrow> jsval attr option \<Rightarrow> string \<Rightarrow> unit eff" where
  \<open>validateMaxLength value maxLength' key =
     (case maxLength' of
        None \<Rightarrow> ret ()
      | Some a \<Rightarrow>
          (let error = attr_error a in
           case attr_first a of
             VNum len \<Rightarrow>
               if typeof value = ''string'' \<and> length_of value > len
               then throw (Error (or_else error
                      (key @ '' must be at most '' @ string_of_int len @ '' characters long'')))
               else if isArray value \<and> length_of value > len
               then throw (Error (or_else error
                      (key @ '' must contain at most '' @ string_of_int len @ '' elements'')))
               else if typeof value = ''object''
               then bind (keys_length value) (\<lambda>n.
                      if n > len
                      then throw (Error (or_else error
                             (key @ '' must contain at most '' @ string_of_int len @ '' properties'')))
                      else ret ())
               else ret ()
           | _ \<Rightarrow> throw (Error (''"maxlength" property for '' @ key @
                   '' must be a number, or an array containing a number as its first element''))))\<close>

text \<open>Invoking a callback records the call and yields the callback's result.\<close>

definition invoke :: "call \<Rightarrow> 'a \<Rightarrow> 'a eff" where
  "invoke c x = ([c], Inr x)"

definition validateCustom ::
  "jsval \<Rightarrow> (jsval \<Rightarrow> jsval) callable attr option \<Rightarrow> string \<Rightarrow> unit eff" where
  \<open>validateCustom value validate key =
     (case validate of
        None \<Rightarrow> ret ()
      | Some a \<Rightarrow>
          if value = VUndefined then ret ()
          else (case attr_first a of
             NotFn \<Rightarrow> throw (Error (''"validate" property for '' @ key @
                   '' must be a function or an array containing a function as its first element''))
           | Fn customValidate \<Rightarrow>
               bind (invoke (CallValidate key value) (customValidate value)) (\<lambda>r.
               if truthy r then ret ()
               else throw (Error (or_else (attr_error a) (key @ '' failed custom validation''))))))\<close>

definition validateArrayTypes :: "jsval \<Rightarrow> string option \<Rightarrow> string \<Rightarrow> unit eff" where
  "validateArrayTypes value type key =
     (case value of
        VArr xs \<Rightarrow>
          (case type of
             None \<Rightarrow> ret ()
           | Some t \<Rightarrow>
               if list_all (\<lambda>i. typeof i = t) xs then ret ()
               else throw (Error (''All elements in '' @ key @ '' must be of type '' @ t)))
      | _ \<Rightarrow> ret ())"

definition setDefault :: "(unit \<Rightarrow> jsval) callable \<Rightarrow> string \<Rightarrow> jsval eff" where
  \<open>setDefault defaultFn' key =
     (case defaultFn' of
        NotFn \<Rightarrow> throw (Error (''"default" property for '' @ key @ '' must be a function''))
      | Fn f \<Rightarrow> invoke (CallDefault key) (f ()))\<close>

definition doTransform :: "jsval \<Rightarrow> (jsval \<Rightarrow> jsval) callable \<Rightarrow> string \<Rightarrow> jsval eff" where
  \<open>doTransform value transformFn' key =
     (case transformFn' of
        NotFn \<Rightarrow> throw (Error (''"transform" property for '' @ key @ '' must be a function''))
      | Fn f \<Rightarrow> invoke (CallTransform key value) (f value))\<close>

section \<open>The recursive validator\<close>

text \<open>
  One iteration of the loop of \<^verbatim>\<open>validate\<close> up to the transform: the pair returned
  is the local \<^verbatim>\<open>value\<close> and the working record \<^verbatim>\<open>dataToCheck\<close>. An absent
  options object behaves as one with every flag false.
\<close>

definition apply_default :: "jsval \<Rightarrow> string \<Rightarrow> fielddef \<Rightarrow> options \<Rightarrow> jsval \<Rightarrow> (jsval \<times> jsval) eff" where
  "apply_default dataToCheck key fd options value =
     (if \<not> skipDefault options then
        (case defaultFn fd of
           Some d \<Rightarrow>
             if value = VUndefined then
               bind (setDefault d key) (\<lambda>x.
               bind (set_prop dataToCheck key x) (\<lambda>dataToCheck'. ret (x, dataToCheck')))
             else ret (value, dataToCheck)
         | None \<Rightarrow> ret (value, dataToCheck))
      else ret (value, dataToCheck))"

definition apply_transform :: "jsval \<Rightarrow> string \<Rightarrow> fielddef \<Rightarrow> jsval \<Rightarrow> (jsval \<times> jsval) eff" where
  "apply_transform dataToCheck key fd value =
     (case transformFn fd of
        Some t \<Rightarrow>
          if value \<noteq> VUndefined then
            bind (doTransform value t key) (\<lambda>x.
            bind (set_prop dataToCheck key x) (\<lambda>dataToCheck'. ret (x, dataToCheck')))
          else ret (value, dataToCheck)
      | None \<Rightarrow> ret (value, dataToCheck))"

definition field_rules :: "jsval \<Rightarrow> string \<Rightarrow> fielddef \<Rightarrow> options \<Rightarrow> (jsval \<times> jsval) eff" where
  "field_rules dataToCheck key fd options =
     bind (get_prop dataToCheck key) (\<lambda>value0.
     bind (apply_default dataToCheck key fd options value0) (\<lambda>(value, dataToCheck1).
     bind (if \<not> skipRequired options then validateRequired value (required fd) key else ret ()) (\<lambda>_.
     bind (validateType value (ftype fd) key) (\<lambda>_.
     bind (validateMaxLength value (maxLength fd) key) (\<lambda>_.
     bind (validateMinLength value (minLength fd) key) (\<lambda>_.
     bind (validateCustom value (validateFn fd) key) (\<lambda>_.
     bind (validateArrayTypes value (arrayOf fd) key) (\<lambda>_.
     apply_transform dataToCheck1 key fd value))))))))"

text \<open>The measure of the recursion of \<open>validate\<close>: the nesting of the schema.\<close>

definition schema_size :: "schemadef \<Rightarrow> nat" where
  "schema_size schema = size_list (size_prod (\<lambda>_. 0) size) schema"

lemma nested_schema_size:
  "nestedSchema fd = Some nested \<Longrightarrow> schema_size nested < size fd"
  by (cases fd) (simp add: schema_size_def)

text \<open>
  \<^verbatim>\<open>validate(data, schema, options)\<close>, with \<open>validateFields\<close> for its loop over the
  schema's fields; a field with a nested schema calls \<open>validate\<close> again with the same
  options and stores the result.
\<close>

function validate :: "jsval \<Rightarrow> schemadef \<Rightarrow> options \<Rightarrow> jsval eff"
  and validateFields :: "jsval \<Rightarrow> schemadef \<Rightarrow> options \<Rightarrow> jsval eff" where
  "validate data schema options =
     bind (if allowDotNotation options then nestData data else ret data) (\<lambda>dataToCheck.
     bind (if \<not> skipStrip options then stripData dataToCheck schema else ret dataToCheck) (\<lambda>dataToCheck1.
     bind (validateFields dataToCheck1 schema options) (\<lambda>dataToCheck2.
     if allowDotNotation options then flattenData dataToCheck2 '''' else ret dataToCheck2)))"
| "validateFields dataToCheck [] options = ret dataToCheck"
| "validateFields dataToCheck ((key, fd) # rest) options =
     bind (field_rules dataToCheck key fd options) (\<lambda>(value, dataToCheck1).
     bind (case nestedSchema fd of
             None \<Rightarrow> ret dataToCheck1
           | Some nested \<Rightarrow>
               bind (validate value nested options) (\<lambda>r. set_prop dataToCheck1 key r))
       (\<lambda>dataToCheck2. validateFields dataToCheck2 rest options))"
  by pat_completeness auto

termination
proof (relation "measure (\<lambda>x. case x of
          Inl (d, schema, opts) \<Rightarrow> 2 * schema_size schema + 1
        | Inr (d, schema, opts) \<Rightarrow> 2 * schema_size schema)", goal_cases)
  case 1
  show ?case by simp
next
  case 2
  show ?case by simp
next
  case 3
  then show ?case
    by (auto dest: nested_schema_size simp: schema_size_def)
next
  case 4
  show ?case by (simp add: schema_size_def)
qed

declare validate.simps [simp del]

section \<open>Example schemas and inputs\<close>

text \<open>Calling \<^verbatim>\<open>validate\<close> without an options object.\<close>

definition default_options :: options where
  "default_options =
     \<lparr>skipStrip = False, skipRequired = False, skipDefault = False, allowDotNotation = False\<rparr>"

text \<open>A field definition with a type and nothing else.\<close>

definition plain_field :: "string \<Rightarrow> fielddef" where
  "plain_field t = FieldDef (Some t) None None None None None None None None"

text \<open>\<^verbatim>\<open>{name: {type: 'string', required: true}, age: {type: 'number'}}\<close>\<close>

definition person_schema :: schemadef where
  "person_schema =
     [(''name'', FieldDef (Some ''string'') (Some (Plain (VBool True)))
                   None None None None None None None),
      (''age'', plain_field ''number'')]"

text \<open>\<^verbatim>\<open>{count: {type: 'number', default: () => 0}}\<close>\<close>

definition counter_schema :: schemadef where
  "counter_schema =
     [(''count'', FieldDef (Some ''number'') None None None None None
                    (Some (Fn (\<lambda>_. VNum 0))) None None)]"

text \<open>
  \<^verbatim>\<open>{details: {type: 'object', schema: {bio: {type: 'string'}}}}\<close>, and the same
  with \<^verbatim>\<open>required: true\<close> on \<^verbatim>\<open>details\<close>.
\<close>

definition details_field :: fielddef where
  "details_field =
     FieldDef (Some ''object'') None None None None None None None
       (Some [(''bio'', plain_field ''string'')])"

definition details_schema :: schemadef where
  "details_schema = [(''details'', details_field)]"

definition required_details_schema :: schemadef where
  "required_details_schema =
     [(''details'', FieldDef (Some ''object'') (Some (Plain (VBool True)))
                      None None None None None None
                      (Some [(''bio'', plain_field ''string'')]))]"

text \<open>Options \<^verbatim>\<open>{skipStrip: true}\<close> and \<^verbatim>\<open>{skipStrip: true, allowDotNotation: true}\<close>.\<close>

definition keep_options :: options where
  "keep_options = default_options\<lparr>skipStrip := True\<rparr>"

definition dot_keep_options :: options where
  "dot_keep_options =
     \<lparr>skipStrip = True, skipRequired = False, skipDefault = False, allowDotNotation = True\<rparr>"

text \<open>\<^verbatim>\<open>{a: {type: 'string'}, b: {type: 'number'}, c: {type: 'boolean'}}\<close>\<close>

definition three_schema :: schemadef where
  "three_schema =
     [(''a'', plain_field ''string''), (''b'', plain_field ''number''),
      (''c'', plain_field ''boolean'')]"

text \<open>\<^verbatim>\<open>{type: 'string', transform: (v) => 42}\<close>\<close>

definition code_field :: fielddef where
  "code_field =
     FieldDef (Some ''string'') None None None None (Some (Fn (\<lambda>v. VNum 42))) None None None"

text \<open>
  \<^verbatim>\<open>{profile: {type: 'object', schema: {address: {type: 'object', required: true}}}}\<close>
\<close>

definition profile_schema :: schemadef where
  "profile_schema =
     [(''profile'', FieldDef (Some ''object'') None None None None None None None
        (Some [(''address'', FieldDef (Some ''object'') (Some (Plain (VBool True)))
                               None None None None None None None)]))]"

text \<open>
  \<^verbatim>\<open>{name: {type: 'string'}, when: {type: 'date', required: true}}\<close>:
  \<^verbatim>\<open>'date'\<close> is not a supported type.
\<close>

definition when_field :: fielddef where
  "when_field = FieldDef (Some ''date'') (Some (Plain (VBool True)))
                  None None None None None None None"

definition dated_schema :: schemadef where
  "dated_schema = [(''name'', plain_field ''string''), (''when'', when_field)]"

section \<open>Specification-level notions\<close>

text \<open>
  The size that the length rules compare with the bound: characters of a string,
  elements of an array, own keys of an object; dates and regular expressions are
  objects without own keys. Other kinds have no size.
\<close>

fun measured_length :: "jsval \<Rightarrow> int option" where
  "measured_length (VStr s) = Some (int (length s))"
| "measured_length (VArr xs) = Some (int (length xs))"
| "measured_length (VObj ps) = Some (int (length ps))"
| "measured_length (VDate _) = Some 0"
| "measured_length (VRegExp _) = Some 0"
| "measured_length _ = None"

text \<open>A field whose declared type is missing or not a member of the supported enum.\<close>

definition unknown_type :: "fielddef \<Rightarrow> bool" where
  "unknown_type fd = (case ftype fd of None \<Rightarrow> True | Some t \<Rightarrow> t \<notin> set SchemaTypes)"

text \<open>
  The steps of \<^verbatim>\<open>validate\<close> before its loop: nesting (with dot notation) and
  stripping (unless skipped).
\<close>

definition prepare :: "jsval \<Rightarrow> schemadef \<Rightarrow> options \<Rightarrow> jsval eff" where
  "prepare data schema options =
     bind (if allowDotNotation options then nestData data else ret data) (\<lambda>dataToCheck.
     if \<not> skipStrip options then stripData dataToCheck schema else ret dataToCheck)"

text \<open>
  The rules of one field as the specification lists them. A rule acts on the pair of
  the field's current value and the working record; \<open>run_rules\<close> evaluates a list of
  rules from left to right and stops at the first that raises.
\<close>

datatype rule =
  RDefault | RRequired | RType | RMaxLength | RMinLength | RCustom | RArrayOf | RTransform | RNested

fun run_rule ::
  "rule \<Rightarrow> string \<Rightarrow> fielddef \<Rightarrow> options \<Rightarrow> jsval \<times> jsval \<Rightarrow> (jsval \<times> jsval) eff" where
  "run_rule RDefault key fd opts (value, d) = apply_default d key fd opts value"
| "run_rule RRequired key fd opts (value, d) =
     bind (if \<not> skipRequired opts then validateRequired value (required fd) key else ret ())
       (\<lambda>_. ret (value, d))"
| "run_rule RType key fd opts (value, d) =
     bind (validateType value (ftype fd) key) (\<lambda>_. ret (value, d))"
| "run_rule RMaxLength key fd opts (value, d) =
     bind (validateMaxLength value (maxLength fd) key) (\<lambda>_. ret (value, d))"
| "run_rule RMinLength key fd opts (value, d) =
     bind (validateMinLength value (minLength fd) key) (\<lambda>_. ret (value, d))"
| "run_rule RCustom key fd opts (value, d) =
     bind (validateCustom value (validateFn fd) key) (\<lambda>_. ret (value, d))"
| "run_rule RArrayOf key fd opts (value, d) =
     bind (validateArrayTypes value (arrayOf fd) key) (\<lambda>_. ret (value, d))"
| "run_rule RTransform key fd opts (value, d) = apply_transform d key fd value"
| "run_rule RNested key fd opts (value, d) =
     (case nestedSchema fd of
        None \<Rightarrow> ret (value, d)
      | Some nested \<Rightarrow>
          bind (validate value nested opts) (\<lambda>r.
          bind (set_prop d key r) (\<lambda>d'. ret (r, d'))))"

fun run_rules ::
  "rule list \<Rightarrow> string \<Rightarrow> fielddef \<Rightarrow> options \<Rightarrow> jsval \<times> jsval \<Rightarrow> (jsval \<times> jsval) eff" where
  "run_rules [] key fd opts st = ret st"
| "run_rules (r # rs) key fd opts st =
     bind (run_rule r key fd opts st) (run_rules rs key fd opts)"

definition check_rules :: "rule list" where
  "check_rules = [RDefault, RRequired, RType, RMaxLength, RMinLength, RCustom, RArrayOf]"

definition rule_order :: "rule list" where
  "rule_order = check_rules @ [RTransform, RNested]"

text \<open>A computation during which no transform function is invoked.\<close>

definition no_transform :: "'a eff \<Rightarrow> bool" where
  "no_transform m = (\<forall>k v. CallTransform k v \<notin> set (fst m))"

text \<open>
  The reading of dot notation in which only the outermost invocation nests and
  flattens: the nested record is validated with dot notation switched off at every
  level, and the result is flattened once.
\<close>

definition validate_outermost_only :: "jsval \<Rightarrow> schemadef \<Rightarrow> options \<Rightarrow> jsval eff" where
  "validate_outermost_only data schema options =
     (if allowDotNotation options then
        bind (nestData data) (\<lambda>nested.
        bind (validate nested schema (options\<lparr>allowDotNotation := False\<rparr>)) (\<lambda>r.
        flattenData r ''''))
      else validate data schema options)"

text \<open>A record none of whose values is a plain object, as \<^verbatim>\<open>flattenData\<close> returns.\<close>

definition flat_record :: "jsobj \<Rightarrow> bool" where
  "flat_record ps = list_all (\<lambda>(k, v). \<not> isPlain v) ps"

section \<open>Notions for the path codec\<close>


text \<open>
  A flat record has no path-segment ambiguity when no key's path (its segments between
  the dots) is an initial part of another key's path, as \<^verbatim>\<open>"a.b"\<close> is of
  \<^verbatim>\<open>"a.b.c"\<close>.
\<close>

fun initial_of :: "string list \<Rightarrow> string list \<Rightarrow> bool" where
  "initial_of [] q = True"
| "initial_of (s # p) [] = False"
| "initial_of (s # p) (t # q) = (s = t \<and> initial_of p q)"




text \<open>The key that \<^verbatim>\<open>flattenData\<close> builds for a path: its segments joined by dots.\<close>

fun join_dot :: "string list \<Rightarrow> string" where
  "join_dot [] = []"
| "join_dot [s] = s"
| "join_dot (s # t # ts) = s @ ''.'' @ join_dot (t # ts)"







definition keyed :: "string \<Rightarrow> (string list \<times> jsval) list \<Rightarrow> jsobj" where
  "keyed prefix xs = map (\<lambda>(p, v). (prefix @ join_dot p, v)) xs"





section \<open>Properties\<close>

subsection \<open>The effect monad\<close>

lemma bind_ret [simp]: "bind (ret x) f = f x"
  by (simp add: bind_def ret_def split: prod.splits)

lemma bind_throw [simp]: "bind (throw e) f = throw e"
  by (simp add: bind_def throw_def)

lemma bind_Inl [simp]: "bind (l, Inl e) f = (l, Inl e)"
  by (simp add: bind_def)

lemma bind_Inr: "bind (l, Inr x) f = (l @ fst (f x), snd (f x))"
  by (simp add: bind_def split: prod.splits)

lemma bind_ret_right [simp]: "bind m ret = m"
  by (cases m) (auto simp: bind_def ret_def split: sum.splits)

lemma bind_assoc: "bind (bind m f) g = bind m (\<lambda>x. bind (f x) g)"
  by (cases m) (auto simp: bind_def split: sum.splits prod.splits)

lemma ret_neq_throw [simp]: "ret x \<noteq> throw e" "throw e \<noteq> ret x"
  by (simp_all add: ret_def throw_def)

lemma snd_ret [simp]: "snd (ret x) = Inr x" "fst (ret x) = []"
  by (simp_all add: ret_def)

lemma snd_throw [simp]: "snd (throw e) = Inl e" "fst (throw e) = []"
  by (simp_all add: throw_def)

subsection \<open>The stripper\<close>

text \<open>
  Claim C1. The strip step is to delete exactly the keys of the record that the schema
  does not define. On the record \<^verbatim>\<open>{name: "Ann", extra: 1}\<close> and the schema
  \<^verbatim>\<open>{name: ..., age: ...}\<close> the source does the opposite: \<^verbatim>\<open>stripData\<close> tests
  \<^verbatim>\<open>schema[key] !== undefined\<close>, so it deletes \<^verbatim>\<open>name\<close>, which the schema
  defines, and keeps \<^verbatim>\<open>extra\<close>, which it does not.
\<close>

theorem strip_deletes_schema_keys:
  "stripData (VObj [(''name'', VStr ''Ann''), (''extra'', VNum 1)]) person_schema
     = ret (VObj [(''extra'', VNum 1)])"
  by code_simp

subsection \<open>End-to-end scenarios\<close>

text \<open>
  Claim C2. With the schema \<^verbatim>\<open>{name: {type: 'string', required: true}, age: {type: 'number'}}\<close>
  and no options, \<^verbatim>\<open>validate({name: "Ann"})\<close> is to return the record unchanged.
  In the source the strip step first deletes \<^verbatim>\<open>name\<close>, so the required rule
  fails: both \<^verbatim>\<open>{name: "Ann"}\<close> and \<^verbatim>\<open>{}\<close> raise \<^verbatim>\<open>name is required\<close>.
\<close>

theorem validate_person_raises:
  "validate (VObj [(''name'', VStr ''Ann'')]) person_schema default_options
     = ([], Inl (Error ''name is required''))
   \<and> validate (VObj []) person_schema default_options
     = ([], Inl (Error ''name is required''))"
  by code_simp

text \<open>
  Claim C7. A default supplier is to be left alone when the field is present in the
  input. With no options the strip step deletes the field \<^verbatim>\<open>count\<close> of
  \<^verbatim>\<open>{count: 5}\<close> before the rules run, so the supplier is invoked and its result
  replaces the caller's value.
\<close>

theorem default_invoked_on_present_field:
  "validate (VObj [(''count'', VNum 5)]) counter_schema default_options
     = ([CallDefault ''count''], Inr (VObj [(''count'', VNum 0)]))"
  by code_simp

subsection \<open>Length rules\<close>

text \<open>
  Claim C6, as stated: a value that is not a string, an array or a plain object is
  exempt from the length rules. A date is none of these, yet with \<^verbatim>\<open>minLength: 1\<close>
  it is rejected: \<^verbatim>\<open>typeof\<close> reports \<^verbatim>\<open>'object'\<close> and it has no own keys.
\<close>

theorem date_fails_min_length:
  "validateMinLength (VDate 0) (Some (Plain (VNum 1))) ''created''
     = throw (Error ''created must contain at least 1 properties'')"
  by code_simp

text \<open>
  Claim C6, amended. For a value other than \<^verbatim>\<open>null\<close> and a numeric bound, the
  minLength rule passes exactly when the value has no size or its size is at least the
  bound, and the maxLength rule exactly when it has no size or its size is at most the
  bound, where strings, arrays, plain objects, dates and regular expressions have a
  size (\<open>measured_length\<close>) and undefined, booleans, numbers and functions have none.
  A size equal to the bound passes. A rule that does not pass raises an \<open>Error\<close>.
\<close>

theorem length_bounds:
  assumes "value \<noteq> VNull" and "attr_first a = VNum n"
  shows "(validateMinLength value (Some a) key = ret ())
           = (case measured_length value of None \<Rightarrow> True | Some l \<Rightarrow> n \<le> l)
       \<and> (validateMaxLength value (Some a) key = ret ())
           = (case measured_length value of None \<Rightarrow> True | Some l \<Rightarrow> l \<le> n)
       \<and> (validateMinLength value (Some a) key = ret ()
            \<or> (\<exists>m. validateMinLength value (Some a) key = throw (Error m)))
       \<and> (validateMaxLength value (Some a) key = ret ()
            \<or> (\<exists>m. validateMaxLength value (Some a) key = throw (Error m)))"
  using assms
  by (cases "value") (auto simp add: validateMinLength_def validateMaxLength_def Let_def)

theorem length_bounds_witness:
  "VStr ''abc'' \<noteq> VNull \<and> attr_first (Plain (VNum 3)) = VNum 3
   \<and> validateMinLength (VStr ''abc'') (Some (Plain (VNum 3))) ''nick'' = ret ()
   \<and> validateMaxLength (VStr ''abc'') (Some (Plain (VNum 3))) ''nick'' = ret ()
   \<and> validateMinLength (VStr ''abc'') (Some (Plain (VNum 4))) ''nick'' \<noteq> ret ()"
  using length_bounds [of "VStr ''abc''" "Plain (VNum 3)" 3 "''nick''"]
        length_bounds [of "VStr ''abc''" "Plain (VNum 4)" 4 "''nick''"]
  by simp

subsection \<open>The loop over the schema's fields\<close>

lemma validateFields_append:
  "validateFields d (xs @ ys) opts
     = bind (validateFields d xs opts) (\<lambda>d'. validateFields d' ys opts)"
proof (induction xs arbitrary: d)
  case Nil
  show ?case by simp
next
  case (Cons x xs)
  obtain key fd where x: "x = (key, fd)" by (cases x)
  show ?case
    by (simp add: x Cons.IH bind_assoc split_def)
qed

lemma field_rules_absent:
  assumes "map_of ps key = None \<or> map_of ps key = Some VUndefined"
    and "defaultFn fd = None"
    and "skipRequired opts \<or> required fd = None
           \<or> (\<exists>a. required fd = Some a \<and> attr_first a = VBool False)"
    and "\<exists>t. ftype fd = Some t \<and> t \<in> set SchemaTypes"
    and "\<forall>a. maxLength fd = Some a \<longrightarrow> (\<exists>n. attr_first a = VNum n)"
    and "\<forall>a. minLength fd = Some a \<longrightarrow> (\<exists>n. attr_first a = VNum n)"
  shows "field_rules (VObj ps) key fd opts = ret (VUndefined, VObj ps)"
proof -
  have g: "get_prop (VObj ps) key = ret VUndefined"
    using assms(1) by auto
  have d: "apply_default (VObj ps) key fd opts VUndefined = ret (VUndefined, VObj ps)"
    using assms(2) by (simp add: apply_default_def)
  have r: "(if \<not> skipRequired opts then validateRequired VUndefined (required fd) key
            else ret ()) = ret ()"
    using assms(3) by (auto simp: validateRequired_def Let_def)
  have t: "validateType VUndefined (ftype fd) key = ret ()"
    using assms(4) by (auto simp: validateType_def)
  have mx: "validateMaxLength VUndefined (maxLength fd) key = ret ()"
    using assms(5) by (auto simp: validateMaxLength_def Let_def split: option.splits)
  have mn: "validateMinLength VUndefined (minLength fd) key = ret ()"
    using assms(6) by (auto simp: validateMinLength_def Let_def split: option.splits)
  have c: "validateCustom VUndefined (validateFn fd) key = ret ()"
    by (simp add: validateCustom_def split: option.splits)
  have a: "validateArrayTypes VUndefined (arrayOf fd) key = ret ()"
    by (simp add: validateArrayTypes_def)
  have tr: "apply_transform (VObj ps) key fd VUndefined = ret (VUndefined, VObj ps)"
    by (simp add: apply_transform_def split: option.splits)
  show ?thesis
    unfolding field_rules_def g by (simp add: d r t mx mn c a tr)
qed

lemma validate_undefined_crashes:
  assumes "\<not> allowDotNotation opts"
  shows "validate VUndefined (f # fs) opts = throw (TypeError ReadOfNullish)"
  using assms by (cases f) (simp add: validate.simps field_rules_def)

subsection \<open>Recursion into an absent field\<close>

text \<open>
  Claim C10, as stated: whenever a field with a non-empty nested schema and no default
  is absent, \<^verbatim>\<open>validate\<close> (without dot notation) throws a type error. When the
  field is marked required the required rule, which runs before the recursion, raises
  its own error instead.
\<close>

theorem required_absent_nested_field:
  "validate (VObj []) required_details_schema default_options
     = ([], Inl (Error ''details is required''))"
  by code_simp

text \<open>
  Claim C10, amended. Without dot notation, let a field carry a nested schema with at
  least one field and no default supplier, let the fields declared before it validate
  successfully, and let the field be absent from the working record. If none of the
  field's own rules raises first (the field is not required or the required rule is
  skipped, its type is a supported one, its length bounds are numbers), then
  \<^verbatim>\<open>validate\<close> throws the type error of reading a property of \<^verbatim>\<open>undefined\<close>,
  raised inside the recursive call.
\<close>

theorem absent_nested_field_crashes:
  assumes "\<not> allowDotNotation opts"
    and "schema = pre @ (key, fd) # post"
    and "validateFields
           (VObj (if skipStrip opts then ps else filter (\<lambda>(k, v). map_of schema k = None) ps))
           pre opts = (l, Inr (VObj ps1))"
    and "map_of ps1 key = None \<or> map_of ps1 key = Some VUndefined"
    and "defaultFn fd = None"
    and "nestedSchema fd = Some (f # fs)"
    and "skipRequired opts \<or> required fd = None
           \<or> (\<exists>a. required fd = Some a \<and> attr_first a = VBool False)"
    and "\<exists>t. ftype fd = Some t \<and> t \<in> set SchemaTypes"
    and "\<forall>a. maxLength fd = Some a \<longrightarrow> (\<exists>n. attr_first a = VNum n)"
    and "\<forall>a. minLength fd = Some a \<longrightarrow> (\<exists>n. attr_first a = VNum n)"
  shows "validate (VObj ps) schema opts = (l, Inl (TypeError ReadOfNullish))"
proof -
  let ?d = "VObj (if skipStrip opts then ps else filter (\<lambda>(k, v). map_of schema k = None) ps)"
  have fr: "field_rules (VObj ps1) key fd opts = ret (VUndefined, VObj ps1)"
    using assms(4,5,7,8,9,10) by (rule field_rules_absent)
  have step: "validateFields (VObj ps1) ((key, fd) # post) opts = throw (TypeError ReadOfNullish)"
    using validate_undefined_crashes [OF assms(1), of f fs]
    by (simp add: fr assms(6))
  have loop: "validateFields ?d schema opts = (l, Inl (TypeError ReadOfNullish))"
    unfolding assms(2) validateFields_append
    using assms(3) step unfolding assms(2) by (simp add: bind_Inr throw_def)
  have "validate (VObj ps) schema opts = bind (validateFields ?d schema opts) ret"
    using assms(1) by (simp add: validate.simps)
  with loop show ?thesis by simp
qed

theorem absent_nested_field_crashes_witness:
  "\<not> allowDotNotation default_options
   \<and> defaultFn details_field = None
   \<and> nestedSchema details_field = Some [(''bio'', plain_field ''string'')]
   \<and> required details_field = None
   \<and> validate (VObj []) details_schema default_options = ([], Inl (TypeError ReadOfNullish))"
proof -
  have "validate (VObj []) details_schema default_options = ([], Inl (TypeError ReadOfNullish))"
    by (rule absent_nested_field_crashes
          [where pre = "[]" and key = "''details''" and fd = details_field and post = "[]"
             and ?ps1.0 = "[]" and f = "(''bio'', plain_field ''string'')" and fs = "[]"])
       (simp_all add: default_options_def details_schema_def details_field_def
          SchemaTypes_def ret_def)
  then show ?thesis
    by (simp add: default_options_def details_field_def)
qed

subsection \<open>Fail-fast\<close>

lemma validate_prepare:
  "validate data schema opts =
     bind (prepare data schema opts) (\<lambda>d1.
     bind (validateFields d1 schema opts) (\<lambda>d2.
     if allowDotNotation opts then flattenData d2 '''' else ret d2))"
  by (simp add: validate.simps prepare_def bind_assoc)

lemma field_step_fails:
  assumes "field_rules d2 key fd opts = (l2, Inl e)
           \<or> (\<exists>la v d3 nested lb.
                 field_rules d2 key fd opts = (la, Inr (v, d3))
               \<and> nestedSchema fd = Some nested
               \<and> validate v nested opts = (lb, Inl e)
               \<and> l2 = la @ lb)"
  shows "validateFields d2 ((key, fd) # post) opts = (l2, Inl e)"
  using assms
proof (elim disjE exE conjE)
  assume "field_rules d2 key fd opts = (l2, Inl e)"
  then show ?thesis by (simp)
next
  fix la v d3 nested lb
  assume "field_rules d2 key fd opts = (la, Inr (v, d3))" "nestedSchema fd = Some nested"
    "validate v nested opts = (lb, Inl e)" "l2 = la @ lb"
  then show ?thesis by (simp add: bind_Inr)
qed

text \<open>
  Claim C8. Let the steps before the loop succeed with the working record \<open>d1\<close>, let
  the fields declared before \<open>key\<close> validate successfully, and let the field \<open>key\<close>
  fail with the error \<open>e\<close>: either one of its own rules raises \<open>e\<close>, or its rules
  pass and the recursive call on its nested schema ends in \<open>e\<close>. Then the whole call
  ends in \<open>e\<close>, there is no record returned, and the callbacks invoked are those up
  to the failure: the fields declared after \<open>key\<close> have no influence on the outcome.
\<close>

theorem fail_fast:
  assumes "schema = pre @ (key, fd) # post"
    and "prepare data schema opts = (l0, Inr d1)"
    and "validateFields d1 pre opts = (l1, Inr d2)"
    and "field_rules d2 key fd opts = (l2, Inl e)
           \<or> (\<exists>la v d3 nested lb.
                 field_rules d2 key fd opts = (la, Inr (v, d3))
               \<and> nestedSchema fd = Some nested
               \<and> validate v nested opts = (lb, Inl e)
               \<and> l2 = la @ lb)"
  shows "validate data schema opts = (l0 @ l1 @ l2, Inl e)"
proof -
  have step: "validateFields d2 ((key, fd) # post) opts = (l2, Inl e)"
    using assms(4) by (rule field_step_fails)
  have "validateFields d1 schema opts
          = bind (validateFields d1 pre opts) (\<lambda>d'. validateFields d' ((key, fd) # post) opts)"
    unfolding assms(1) by (rule validateFields_append)
  also have "\<dots> = (l1 @ l2, Inl e)"
    by (simp only: assms(3) bind_Inr step fst_conv snd_conv)
  finally have loop: "validateFields d1 schema opts = (l1 @ l2, Inl e)" .
  show ?thesis
    unfolding validate_prepare by (simp add: assms(2) loop bind_Inr)
qed

theorem fail_fast_witness:
  "validate (VObj [(''a'', VStr ''x''), (''b'', VStr ''oops''), (''c'', VNum 7)])
     three_schema keep_options
     = ([], Inl (Error ''b must be of type number, but got string''))"
proof -
  let ?d = "VObj [(''a'', VStr ''x''), (''b'', VStr ''oops''), (''c'', VNum 7)]"
  let ?e = "Error ''b must be of type number, but got string''"
  have "validate ?d three_schema keep_options = ([] @ [] @ [], Inl ?e)"
  proof (rule fail_fast [where pre = "[(''a'', plain_field ''string'')]" and key = "''b''"
        and fd = "plain_field ''number''" and post = "[(''c'', plain_field ''boolean'')]"
        and ?d1.0 = ?d and ?d2.0 = ?d])
    show "three_schema = [(''a'', plain_field ''string'')]
            @ (''b'', plain_field ''number'') # [(''c'', plain_field ''boolean'')]"
      by (simp add: three_schema_def)
    show "prepare ?d three_schema keep_options = ([], Inr ?d)"
      by code_simp
    show "validateFields ?d [(''a'', plain_field ''string'')] keep_options = ([], Inr ?d)"
      by code_simp
    have "field_rules ?d ''b'' (plain_field ''number'') keep_options = ([], Inl ?e)"
      by code_simp
    then show "field_rules ?d ''b'' (plain_field ''number'') keep_options = ([], Inl ?e)
        \<or> (\<exists>la v d3 nested lb.
              field_rules ?d ''b'' (plain_field ''number'') keep_options = (la, Inr (v, d3))
            \<and> nestedSchema (plain_field ''number'') = Some nested
            \<and> validate v nested keep_options = (lb, Inl ?e)
            \<and> [] = la @ lb)"
      by (rule disjI1)
  qed
  then show ?thesis by simp
qed

subsection \<open>Rule order\<close>

lemma run_rules_append:
  "run_rules (rs @ rs') key fd opts st
     = bind (run_rules rs key fd opts st) (run_rules rs' key fd opts)"
proof (induction rs arbitrary: st)
  case Nil
  show ?case by simp
next
  case (Cons r rs)
  have "run_rules (rs @ rs') key fd opts
          = (\<lambda>x. bind (run_rules rs key fd opts x) (run_rules rs' key fd opts))"
    by (rule ext) (rule Cons.IH)
  then show ?case by (simp add: bind_assoc)
qed

lemma run_rule_state:
  "run_rule RDefault key fd opts st = apply_default (snd st) key fd opts (fst st)"
  "run_rule RRequired key fd opts st =
     bind (if \<not> skipRequired opts then validateRequired (fst st) (required fd) key else ret ())
       (\<lambda>_. ret st)"
  "run_rule RType key fd opts st = bind (validateType (fst st) (ftype fd) key) (\<lambda>_. ret st)"
  "run_rule RMaxLength key fd opts st =
     bind (validateMaxLength (fst st) (maxLength fd) key) (\<lambda>_. ret st)"
  "run_rule RMinLength key fd opts st =
     bind (validateMinLength (fst st) (minLength fd) key) (\<lambda>_. ret st)"
  "run_rule RCustom key fd opts st =
     bind (validateCustom (fst st) (validateFn fd) key) (\<lambda>_. ret st)"
  "run_rule RArrayOf key fd opts st =
     bind (validateArrayTypes (fst st) (arrayOf fd) key) (\<lambda>_. ret st)"
  "run_rule RTransform key fd opts st = apply_transform (snd st) key fd (fst st)"
  by (cases st; simp)+

lemma step_in_order:
  "validateFields d ((key, fd) # rest) opts =
     bind (get_prop d key) (\<lambda>value.
     bind (run_rules rule_order key fd opts (value, d)) (\<lambda>(value', d').
     validateFields d' rest opts))"
proof -
  have nested: "bind (run_rule RNested key fd opts p) (\<lambda>x. validateFields (snd x) rest opts)
      = bind (case nestedSchema fd of None \<Rightarrow> ret (snd p)
              | Some nested \<Rightarrow> bind (validate (fst p) nested opts) (set_prop (snd p) key))
          (\<lambda>d2. validateFields d2 rest opts)" for p
    by (cases p) (simp add: bind_assoc split: option.splits)
  show ?thesis
    by (simp add: rule_order_def check_rules_def field_rules_def bind_assoc split_def
          run_rule_state nested)
qed

lemma fst_bind:
  "fst (bind m f) = fst m @ (case snd m of Inl e \<Rightarrow> [] | Inr x \<Rightarrow> fst (f x))"
  by (cases m) (auto simp: bind_def split: sum.splits prod.splits)

lemma no_transform_bind:
  "no_transform m \<Longrightarrow> (\<And>x. no_transform (f x)) \<Longrightarrow> no_transform (bind m f)"
  by (auto simp: no_transform_def fst_bind split: sum.splits)

lemma no_transform_basic [simp]:
  "no_transform (ret x)" "no_transform (throw e)"
  "no_transform (invoke (CallDefault k) y)" "no_transform (invoke (CallValidate k v) z)"
  by (simp_all add: no_transform_def invoke_def)

lemma no_transform_if:
  "no_transform a \<Longrightarrow> no_transform b \<Longrightarrow> no_transform (if c then a else b)"
  by simp

lemma no_transform_set_prop [simp]: "no_transform (set_prop d k v)"
  by (cases d) simp_all

lemma no_transform_keys_length [simp]: "no_transform (keys_length v)"
  by (cases v) simp_all

lemma no_transform_rules:
  "no_transform (apply_default d key fd opts value)"
  "no_transform (validateRequired value r key)"
  "no_transform (validateType value t key)"
  "no_transform (validateMaxLength value a key)"
  "no_transform (validateMinLength value a key)"
  "no_transform (validateCustom value c key)"
  "no_transform (validateArrayTypes value t key)"
  by (auto simp: apply_default_def setDefault_def validateRequired_def validateType_def
        validateMaxLength_def validateMinLength_def validateCustom_def validateArrayTypes_def
        Let_def
      intro!: no_transform_bind split: option.splits callable.splits jsval.splits)

lemma no_transform_checks: "no_transform (run_rules check_rules key fd opts st)"
  by (simp add: check_rules_def run_rule_state no_transform_rules
        no_transform_bind no_transform_if)

lemma transform_after_checks:
  assumes "run_rules check_rules key fd opts (value, VObj ps) = (l, Inr (v, VObj ps1))"
    and "transformFn fd = Some (Fn f)" and "v \<noteq> VUndefined" and "nestedSchema fd = None"
  shows "run_rules rule_order key fd opts (value, VObj ps)
           = (l @ [CallTransform key v], Inr (f v, VObj (upd ps1 key (f v))))"
  unfolding rule_order_def run_rules_append assms(1)
  using assms(2-4)
  by (simp add: bind_Inr apply_transform_def doTransform_def invoke_def ret_def)

text \<open>
  Claim C4. One iteration of the loop of \<^verbatim>\<open>validate\<close> reads the field's value and
  evaluates \<open>rule_order\<close>, that is default, required, type, maxLength, minLength,
  custom, array element type, transform, nested recursion, from left to right, stopping
  at the first rule that raises. If one of the rules before the transform raises, the
  iteration ends in that error and no transform function has been invoked. If they all
  pass with the value \<open>v\<close>, a transform \<open>f\<close> is invoked once, on \<open>v\<close>, and the field
  becomes \<open>f v\<close> whatever \<open>f v\<close> is: no rule is evaluated on it again.
\<close>

theorem rules_in_order:
  "validateFields d ((key, fd) # rest) opts =
     bind (get_prop d key) (\<lambda>value.
     bind (run_rules rule_order key fd opts (value, d)) (\<lambda>(value', d').
     validateFields d' rest opts))
   \<and> (\<forall>l e. run_rules check_rules key fd opts (value, d) = (l, Inl e) \<longrightarrow>
          run_rules rule_order key fd opts (value, d) = (l, Inl e)
        \<and> (\<forall>k v. CallTransform k v \<notin> set l))
   \<and> (\<forall>ps ps1 l v f.
          run_rules check_rules key fd opts (value, VObj ps) = (l, Inr (v, VObj ps1))
        \<and> transformFn fd = Some (Fn f) \<and> v \<noteq> VUndefined \<and> nestedSchema fd = None \<longrightarrow>
          run_rules rule_order key fd opts (value, VObj ps)
            = (l @ [CallTransform key v], Inr (f v, VObj (upd ps1 key (f v)))))"
proof (intro conjI allI impI)
  show "validateFields d ((key, fd) # rest) opts =
     bind (get_prop d key) (\<lambda>value.
     bind (run_rules rule_order key fd opts (value, d)) (\<lambda>(value', d').
     validateFields d' rest opts))"
    by (rule step_in_order)
next
  fix l e
  assume "run_rules check_rules key fd opts (value, d) = (l, Inl e)"
  then show "run_rules rule_order key fd opts (value, d) = (l, Inl e)"
    by (simp add: rule_order_def run_rules_append)
next
  fix l e k v
  assume "run_rules check_rules key fd opts (value, d) = (l, Inl e)"
  with no_transform_checks [of key fd opts "(value, d)"]
  show "CallTransform k v \<notin> set l"
    by (simp add: no_transform_def)
next
  fix ps ps1 l v f
  assume "run_rules check_rules key fd opts (value, VObj ps) = (l, Inr (v, VObj ps1))
        \<and> transformFn fd = Some (Fn f) \<and> v \<noteq> VUndefined \<and> nestedSchema fd = None"
  then show "run_rules rule_order key fd opts (value, VObj ps)
            = (l @ [CallTransform key v], Inr (f v, VObj (upd ps1 key (f v))))"
    by (intro transform_after_checks) simp_all
qed

theorem rules_in_order_witness:
  "validateFields (VObj [(''code'', VStr ''abc'')]) [(''code'', code_field)] keep_options
     = ([CallTransform ''code'' (VStr ''abc'')], Inr (VObj [(''code'', VNum 42)]))
   \<and> validateFields (VObj [(''code'', VNum 1)]) [(''code'', code_field)] keep_options
     = ([], Inl (Error ''code must be of type string, but got number''))"
proof -
  have checks_pass: "run_rules check_rules ''code'' code_field keep_options
            (VStr ''abc'', VObj [(''code'', VStr ''abc'')])
          = ([], Inr (VStr ''abc'', VObj [(''code'', VStr ''abc'')]))"
    by code_simp
  have checks_fail: "run_rules check_rules ''code'' code_field keep_options
            (VNum 1, VObj [(''code'', VNum 1)])
          = ([], Inl (Error ''code must be of type string, but got number''))"
    by code_simp
  have tf: "transformFn code_field = Some (Fn (\<lambda>v. VNum 42))" "nestedSchema code_field = None"
    by (simp_all add: code_field_def)
  have nz: "VStr ''abc'' \<noteq> VUndefined"
    by simp
  note order = rules_in_order [THEN conjunct1]
  note failing = rules_in_order [THEN conjunct2, THEN conjunct1, rule_format, THEN conjunct1]
  note passing = rules_in_order [THEN conjunct2, THEN conjunct2, rule_format]
  have a: "run_rules rule_order ''code'' code_field keep_options
            (VStr ''abc'', VObj [(''code'', VStr ''abc'')])
          = ([CallTransform ''code'' (VStr ''abc'')], Inr (VNum 42, VObj [(''code'', VNum 42)]))"
    using passing [OF conjI [OF checks_pass conjI [OF tf(1) conjI [OF nz tf(2)]]]] by simp
  have b: "run_rules rule_order ''code'' code_field keep_options
            (VNum 1, VObj [(''code'', VNum 1)])
          = ([], Inl (Error ''code must be of type string, but got number''))"
    using checks_fail by (rule failing)
  have "validateFields (VObj [(''code'', VStr ''abc'')]) [(''code'', code_field)] keep_options
     = ([CallTransform ''code'' (VStr ''abc'')], Inr (VObj [(''code'', VNum 42)]))"
    unfolding order by (simp add: a bind_Inr ret_def)
  moreover
  have "validateFields (VObj [(''code'', VNum 1)]) [(''code'', code_field)] keep_options
     = ([], Inl (Error ''code must be of type string, but got number''))"
    unfolding order by (simp add: b)
  ultimately show ?thesis by simp
qed

subsection \<open>Unknown types\<close>

lemma validateType_unknown:
  "unknown_type fd \<Longrightarrow>
     validateType value (ftype fd) key = throw (Error (''Invalid type for '' @ key))"
  by (auto simp: unknown_type_def validateType_def split: option.splits)

lemma type_rule_unknown:
  assumes "unknown_type fd"
  shows "run_rules (RType # rs) key fd opts st = throw (Error (''Invalid type for '' @ key))"
  by (simp add: run_rule_state validateType_unknown [OF assms])

lemma field_unknown_type:
  assumes "unknown_type fd"
    and "get_prop d2 key = ret value0"
    and "run_rules [RDefault, RRequired] key fd opts (value0, d2) = (l2, Inr st)"
  shows "validateFields d2 ((key, fd) # post) opts
           = (l2, Inl (Error (''Invalid type for '' @ key)))"
proof -
  let ?e = "Error (''Invalid type for '' @ key)"
  let ?later = "[RMaxLength, RMinLength, RCustom, RArrayOf, RTransform, RNested]"
  have order: "rule_order = [RDefault, RRequired] @ RType # ?later"
    by (simp add: rule_order_def check_rules_def)
  have "run_rules rule_order key fd opts (value0, d2)
          = bind (l2, Inr st) (run_rules (RType # ?later) key fd opts)"
    unfolding order run_rules_append assms(3) ..
  also have "\<dots> = (l2, Inl ?e)"
    by (simp only: bind_Inr type_rule_unknown [OF assms(1)]) (simp add: throw_def)
  finally have rules: "run_rules rule_order key fd opts (value0, d2) = (l2, Inl ?e)" .
  show ?thesis
    unfolding step_in_order assms(2) by (simp add: rules)
qed

lemma early_rules_error:
  assumes "run_rules [RDefault, RRequired] key fd opts (v, VObj ps) = (l, Inl e)"
  shows "\<exists>m. e = Error m"
  using assms
  by (auto simp: apply_default_def setDefault_def validateRequired_def invoke_def bind_def
        ret_def throw_def Let_def
      split: option.splits callable.splits if_splits sum.splits prod.splits)

lemma field_early_error:
  assumes "get_prop d2 key = ret value0"
    and "run_rules [RDefault, RRequired] key fd opts (value0, d2) = (l2, Inl e)"
  shows "validateFields d2 ((key, fd) # post) opts = (l2, Inl e)"
proof -
  let ?later = "[RMaxLength, RMinLength, RCustom, RArrayOf, RTransform, RNested]"
  have order: "rule_order = [RDefault, RRequired] @ RType # ?later"
    by (simp add: rule_order_def check_rules_def)
  have rules: "run_rules rule_order key fd opts (value0, d2) = (l2, Inl e)"
    unfolding order run_rules_append assms(2) by simp
  show ?thesis
    unfolding step_in_order assms(1) by (simp add: rules)
qed

lemma loop_fails_at:
  assumes "schema = pre @ (key, fd) # post"
    and "prepare data schema opts = (l0, Inr d1)"
    and "validateFields d1 pre opts = (l1, Inr d2)"
    and "validateFields d2 ((key, fd) # post) opts = (l2, Inl e)"
  shows "validate data schema opts = (l0 @ l1 @ l2, Inl e)"
proof -
  have "validateFields d1 schema opts
          = bind (validateFields d1 pre opts) (\<lambda>d'. validateFields d' ((key, fd) # post) opts)"
    unfolding assms(1) by (rule validateFields_append)
  also have "\<dots> = (l1 @ l2, Inl e)"
    by (simp only: assms(3) bind_Inr assms(4) fst_conv snd_conv)
  finally have loop: "validateFields d1 schema opts = (l1 @ l2, Inl e)" .
  show ?thesis
    unfolding validate_prepare by (simp add: assms(2) loop bind_Inr)
qed

text \<open>
  Claim C9, as stated: with a field whose declared type is not a supported one,
  \<^verbatim>\<open>validate\<close> fails for every input with a schema-configuration error, not a data
  error. In \<open>dated_schema\<close> the field \<^verbatim>\<open>when\<close> declares the type \<^verbatim>\<open>'date'\<close> and is
  required. For the input \<^verbatim>\<open>{name: "Ann"}\<close> the required rule, which runs before the
  type rule, raises first: the call fails with the data error \<^verbatim>\<open>when is required\<close>.
\<close>

theorem required_precedes_unknown_type:
  "unknown_type when_field
   \<and> validate (VObj [(''name'', VStr ''Ann'')]) dated_schema keep_options
       = ([], Inl (Error ''when is required''))"
  by code_simp

text \<open>
  Claim C9, amended. Let a field declare a type that is missing or not in the supported
  enum, and let a call of \<^verbatim>\<open>validate\<close> arrive at that field: the steps before the
  loop succeed and the fields declared before \<open>key\<close> validate successfully, leaving
  a record in which the field has the value \<open>value0\<close>. Then for every input and all
  options the call fails with a thrown \<open>Error\<close>, whatever \<open>value0\<close> is. If the
  field's default and required rules, which run before the type rule, pass, the error is
  the configuration error \<^verbatim>\<open>Invalid type for <key>\<close>; if one of them raises, the
  error is the one it raised. The type rule itself raises
  \<^verbatim>\<open>Invalid type for <key>\<close> on every value.
\<close>

theorem unknown_type_config_error:
  assumes "unknown_type fd"
    and "schema = pre @ (key, fd) # post"
    and "prepare data schema opts = (l0, Inr d1)"
    and "validateFields d1 pre opts = (l1, Inr (VObj ps2))"
    and "get_prop (VObj ps2) key = ret value0"
  shows "(\<exists>l m. validate data schema opts = (l, Inl (Error m)))
       \<and> (\<forall>l2 st. run_rules [RDefault, RRequired] key fd opts (value0, VObj ps2) = (l2, Inr st) \<longrightarrow>
             validate data schema opts
               = (l0 @ l1 @ l2, Inl (Error (''Invalid type for '' @ key))))
       \<and> (\<forall>l2 e. run_rules [RDefault, RRequired] key fd opts (value0, VObj ps2) = (l2, Inl e) \<longrightarrow>
             validate data schema opts = (l0 @ l1 @ l2, Inl e))
       \<and> validateType value (ftype fd) key = throw (Error (''Invalid type for '' @ key))"
proof -
  let ?e = "Error (''Invalid type for '' @ key)"
  let ?early = "run_rules [RDefault, RRequired] key fd opts (value0, VObj ps2)"
  have reached: "validate data schema opts = (l0 @ l1 @ l2, Inl ?e)"
    if "?early = (l2, Inr st)" for l2 st
    using assms(2-4) field_unknown_type [OF assms(1,5) that] by (rule loop_fails_at)
  have earlier: "validate data schema opts = (l0 @ l1 @ l2, Inl e)"
    if "?early = (l2, Inl e)" for l2 e
    using assms(2-4) field_early_error [OF assms(5) that] by (rule loop_fails_at)
  have "\<exists>l m. validate data schema opts = (l, Inl (Error m))"
  proof (cases ?early)
    case (Pair l2 r)
    show ?thesis
    proof (cases r)
      case (Inl e)
      with Pair early_rules_error [of key fd opts value0 ps2 l2 e] obtain m where "e = Error m"
        by auto
      with earlier [of l2 e] Pair Inl show ?thesis by auto
    next
      case (Inr st)
      with reached [of l2 st] Pair show ?thesis by auto
    qed
  qed
  moreover have "validateType value (ftype fd) key = throw ?e"
    using assms(1) by (rule validateType_unknown)
  ultimately show ?thesis
    using reached earlier by blast
qed

theorem unknown_type_config_error_witness:
  "validate (VObj [(''name'', VStr ''Ann''), (''when'', VStr ''today'')]) dated_schema keep_options
     = ([], Inl (Error ''Invalid type for when''))
   \<and> validateType (VNum 7) (ftype when_field) ''when'' = throw (Error ''Invalid type for when'')"
proof -
  let ?d = "VObj [(''name'', VStr ''Ann''), (''when'', VStr ''today'')]"
  have u: "unknown_type when_field"
    by code_simp
  have s: "dated_schema = [(''name'', plain_field ''string'')] @ (''when'', when_field) # []"
    by (simp add: dated_schema_def)
  have p: "prepare ?d dated_schema keep_options = ([], Inr ?d)"
    by code_simp
  have f: "validateFields ?d [(''name'', plain_field ''string'')] keep_options = ([], Inr ?d)"
    by code_simp
  have g: "get_prop ?d ''when'' = ret (VStr ''today'')"
    by code_simp
  have r: "run_rules [RDefault, RRequired] ''when'' when_field keep_options (VStr ''today'', ?d)
             = ([], Inr (VStr ''today'', ?d))"
    by code_simp
  note all = unknown_type_config_error [OF u s p f g, of "VNum 7"]
  from all [THEN conjunct2, THEN conjunct1, rule_format, OF r]
       all [THEN conjunct2, THEN conjunct2, THEN conjunct2]
  show ?thesis by simp
qed

subsection \<open>Dot notation at inner levels\<close>

lemma flat_upd: "flat_record ps \<Longrightarrow> \<not> isPlain v \<Longrightarrow> flat_record (upd ps k v)"
  by (induction ps k v rule: upd.induct) (auto simp: flat_record_def)

lemma flat_assign: "flat_record acc \<Longrightarrow> flat_record ps \<Longrightarrow> flat_record (assign acc ps)"
  by (induction acc ps rule: assign.induct)
     (auto simp: flat_record_def intro: flat_upd [unfolded flat_record_def])

lemma flat_flatten_entries:
  "flat_record acc \<Longrightarrow> flat_record (flatten_entries ps prefix acc)"
proof (induction ps prefix acc rule: flatten_entries.induct)
  case (1 prefix result)
  then show ?case by simp
next
  case (2 key ps rest prefix result)
  have "flat_record (flatten_entries ps (prefix @ key @ ''.'') [])"
    by (rule 2(1)) (simp add: flat_record_def)
  with 2(3) have "flat_record (assign result (flatten_entries ps (prefix @ key @ ''.'') []))"
    by (rule flat_assign)
  then show ?case by (simp add: 2(2))
qed (simp_all add: flat_upd)

lemma flat_flattenData:
  "flattenData d prefix = (l, Inr r) \<Longrightarrow> \<exists>ps. r = VObj ps \<and> flat_record ps"
proof (cases d)
  case (VObj qs)
  have "flat_record (flatten_entries qs prefix [])"
    by (rule flat_flatten_entries) (simp add: flat_record_def)
  moreover assume "flattenData d prefix = (l, Inr r)"
  ultimately show ?thesis using VObj by (auto simp: ret_def)
qed (auto simp: ret_def throw_def)

text \<open>
  Claim C5, as stated: with dot notation only the outermost invocation nests and
  flattens. Take the schema
  \<^verbatim>\<open>{profile: {type: 'object', schema: {address: {type: 'object', required: true}}}}\<close>
  and the input \<^verbatim>\<open>{profile: {"address.city": "Sofia"}}\<close>, with stripping skipped.
  The source succeeds, because the recursive call nests \<^verbatim>\<open>"address.city"\<close> into
  \<^verbatim>\<open>{address: {city: ...}}\<close> before its rules run; if only the outermost invocation
  nested, the inner level would find no \<^verbatim>\<open>address\<close> and fail.
\<close>

theorem inner_level_nests:
  "validate (VObj [(''profile'', VObj [(''address.city'', VStr ''Sofia'')])])
      profile_schema dot_keep_options
     = ([], Inr (VObj [(''profile.address.city'', VStr ''Sofia'')]))
   \<and> validate_outermost_only (VObj [(''profile'', VObj [(''address.city'', VStr ''Sofia'')])])
      profile_schema dot_keep_options
     = ([], Inl (Error ''address is required''))"
  by code_simp

text \<open>
  Claim C5, amended. With dot notation every invocation of \<^verbatim>\<open>validate\<close> nests its
  input before stripping and the loop, and flattens the loop's result; the recursive
  call for a field with a nested schema receives the same options and so does both on
  the field's value; and whatever any invocation returns is a flattened record.
\<close>

theorem nest_flatten_every_level:
  assumes "allowDotNotation opts"
  shows "validate data schema opts =
           bind (nestData data) (\<lambda>nested.
           bind (if \<not> skipStrip opts then stripData nested schema else ret nested) (\<lambda>d1.
           bind (validateFields d1 schema opts) (\<lambda>d2.
           flattenData d2 '''')))
       \<and> validateFields d ((key, fd) # rest) opts =
           bind (field_rules d key fd opts) (\<lambda>(value, d1).
           bind (case nestedSchema fd of
                   None \<Rightarrow> ret d1
                 | Some inner \<Rightarrow>
                     bind (bind (nestData value) (\<lambda>nested.
                           bind (if \<not> skipStrip opts then stripData nested inner
                                 else ret nested) (\<lambda>d1'.
                           bind (validateFields d1' inner opts) (\<lambda>d2.
                           flattenData d2 ''''))))
                       (\<lambda>r. set_prop d1 key r))
             (\<lambda>d2. validateFields d2 rest opts))
       \<and> (\<forall>l r. validate data schema opts = (l, Inr r) \<longrightarrow>
            (\<exists>ps. r = VObj ps \<and> flat_record ps))"
proof (intro conjI allI impI)
  show v: "validate data schema opts =
           bind (nestData data) (\<lambda>nested.
           bind (if \<not> skipStrip opts then stripData nested schema else ret nested) (\<lambda>d1.
           bind (validateFields d1 schema opts) (\<lambda>d2.
           flattenData d2 '''')))" for data schema
    using assms by (simp add: validate.simps)
  show "validateFields d ((key, fd) # rest) opts =
           bind (field_rules d key fd opts) (\<lambda>(value, d1).
           bind (case nestedSchema fd of
                   None \<Rightarrow> ret d1
                 | Some inner \<Rightarrow>
                     bind (bind (nestData value) (\<lambda>nested.
                           bind (if \<not> skipStrip opts then stripData nested inner
                                 else ret nested) (\<lambda>d1'.
                           bind (validateFields d1' inner opts) (\<lambda>d2.
                           flattenData d2 ''''))))
                       (\<lambda>r. set_prop d1 key r))
             (\<lambda>d2. validateFields d2 rest opts))"
    by (simp only: validateFields.simps v)
  fix l r
  assume ok: "validate data schema opts = (l, Inr r)"
  have "\<exists>l' d2. flattenData d2 '''' = (l', Inr r)"
    using ok unfolding v
    by (auto simp: bind_def split: prod.splits sum.splits if_splits)
  then show "\<exists>ps. r = VObj ps \<and> flat_record ps"
    by (auto dest: flat_flattenData)
qed

theorem nest_flatten_every_level_witness:
  "allowDotNotation dot_keep_options
   \<and> (\<exists>ps. validate (VObj [(''profile'', VObj [(''address'', VObj [(''city'', VStr ''Sofia'')])])])
            profile_schema dot_keep_options = ([], Inr (VObj ps))
         \<and> flat_record ps)"
proof -
  have a: "allowDotNotation dot_keep_options"
    by (simp add: dot_keep_options_def)
  have e: "validate (VObj [(''profile'', VObj [(''address'', VObj [(''city'', VStr ''Sofia'')])])])
            profile_schema dot_keep_options
           = ([], Inr (VObj [(''profile.address.city'', VStr ''Sofia'')]))"
    by code_simp
  from nest_flatten_every_level [OF a, THEN conjunct2, THEN conjunct2, rule_format, OF e]
  obtain ps where "VObj [(''profile.address.city'', VStr ''Sofia'')] = VObj ps" "flat_record ps"
    by blast
  with a e show ?thesis by simp
qed

subsection \<open>Round trip of the path codec\<close>

lemma split_dot_nonempty [simp]: "split_dot k \<noteq> []"
  by (induction k) (auto split: list.splits)











lemma keyed_append [simp]: "keyed prefix (xs @ ys) = keyed prefix xs @ keyed prefix ys"
  by (simp add: keyed_def)























lemma initial_of_refl [simp]: "initial_of p p"
  by (induction p) simp_all






















end
